theory Spec2Isabelle
  imports Main "HOL-Library.Word" "HOL-Library.AList"
begin

section \<open>Python values, errors and dictionaries\<close>

text \<open>
  The module \<^verbatim>\<open>sunpy/io/jp2.py\<close> reads and writes JPEG 2000 files whose FITS-style header
  travels as an XML box of the container. Exceptions are values: a function that can raise
  returns \<open>error + 'a\<close>, with \<open>Inl\<close> for the exception. \<open>MissingMetadataError\<close> is the
  error the specification names; \<open>CodecError\<close> stands for a failure of the codec library
  and \<open>Unspecified\<close> for a call of a collaborator outside its stated contract.
\<close>

datatype error =
  IndexError | AttributeError | KeyError | CodecError | Unspecified | MissingMetadataError

text \<open>
  Header values are strings, integers, floats and booleans. Floating-point numbers are kept
  abstract (the type parameter \<open>'f\<close>): Python's \<^verbatim>\<open>float(s)\<close> and \<^verbatim>\<open>str(x)\<close> on a float are
  parameters \<open>py_float\<close> (\<open>None\<close> where \<^verbatim>\<open>float\<close> raises \<^verbatim>\<open>ValueError\<close>) and \<open>str_float\<close>
  of the functions below. Strings are ASCII text and integers are unbounded.
\<close>

datatype 'f pyval = PyStr string | PyInt int | PyFloat 'f | PyBool bool

text \<open>
  A \<^verbatim>\<open>dict\<close> keeps insertion order: an association list with one entry per key.
  \<^verbatim>\<open>d[k] = v\<close> replaces the value in place or appends a new entry.
\<close>

type_synonym 'v pydict = "(string \<times> 'v) list"

definition contains :: "'v pydict \<Rightarrow> string \<Rightarrow> bool" where
  "contains d k = (map_of d k \<noteq> None)"

definition getitem :: "'v pydict \<Rightarrow> string \<Rightarrow> error + 'v" where
  "getitem d k = (case map_of d k of None \<Rightarrow> Inl KeyError | Some v \<Rightarrow> Inr v)"

definition setitem :: "'v pydict \<Rightarrow> string \<Rightarrow> 'v \<Rightarrow> 'v pydict" where
  "setitem d k v = AList.update k v d"

subsection \<open>Strings and numbers\<close>

definition digit_chars :: string where
  "digit_chars = ''0123456789''"

text \<open>\<^verbatim>\<open>str.isdigit\<close>: at least one character, and every character a digit.\<close>

definition isdigit :: "string \<Rightarrow> bool" where
  "isdigit s = (s \<noteq> [] \<and> list_all (\<lambda>c. c \<in> set digit_chars) s)"

definition digit_value :: "char \<Rightarrow> int" where
  "digit_value c = int (of_char c) - 48"

text \<open>\<^verbatim>\<open>int(s)\<close> on a string of digits: its value in base ten.\<close>

definition py_int :: "string \<Rightarrow> int" where
  "py_int s = foldl (\<lambda>n c. 10 * n + digit_value c) 0 s"

text \<open>\<^verbatim>\<open>str(n)\<close> on an integer: base ten, most significant digit first, \<^verbatim>\<open>-\<close> when negative.\<close>

fun str_nat :: "nat \<Rightarrow> string" where
  "str_nat n = (if n < 10 then [digit_chars ! n] else str_nat (n div 10) @ [digit_chars ! (n mod 10)])"

declare str_nat.simps [simp del]

definition str_int :: "int \<Rightarrow> string" where
  "str_int i = (if i < 0 then CHR ''-'' # str_nat (nat (- i)) else str_nat (nat i))"

text \<open>\<^verbatim>\<open>str(x)\<close>, the default string conversion.\<close>

fun py_str :: "('f \<Rightarrow> string) \<Rightarrow> 'f pyval \<Rightarrow> string" where
  "py_str str_float (PyStr s) = s"
| "py_str str_float (PyInt i) = str_int i"
| "py_str str_float (PyFloat x) = str_float x"
| "py_str str_float (PyBool b) = (if b then ''True'' else ''False'')"

text \<open>\<^verbatim>\<open>s.replace("\n", "")\<close>.\<close>

definition remove_newlines :: "string \<Rightarrow> string" where
  "remove_newlines s = filter (\<lambda>c. c \<noteq> CHR 0x0A) s"

text \<open>
  Modelled from the spec: \<^verbatim>\<open>sunpy.util.io.string_is_float\<close> is not among the sources.
  The string "parses as a floating-point literal": \<^verbatim>\<open>float(s)\<close> returns a value.
\<close>

definition string_is_float :: "(string \<Rightarrow> 'f option) \<Rightarrow> string \<Rightarrow> bool" where
  "string_is_float py_float s = (py_float s \<noteq> None)"

section \<open>XML trees, boxes and files\<close>

text \<open>
  An element has a tag, a text and child elements; an element without text has the empty
  text. An element tree is given by its root element.
\<close>

datatype element = Element (tag: string) (etext: string) (children: "element list")

text \<open>\<^verbatim>\<open>ET.SubElement(parent, ...)\<close> and \<^verbatim>\<open>parent.append(child)\<close>: a new last child.\<close>

definition append :: "element \<Rightarrow> element \<Rightarrow> element" where
  "append parent child = Element (tag parent) (etext parent) (children parent @ [child])"

text \<open>\<^verbatim>\<open>tree.find(name)\<close>: the first child of the root with that tag, or \<^verbatim>\<open>None\<close>.\<close>

definition find_child :: "element \<Rightarrow> string \<Rightarrow> element option" where
  "find_child root name = List.find (\<lambda>c. tag c = name) (children root)"

text \<open>
  A box of the container has an identifier; an XML box (\<^verbatim>\<open>box_id == 'xml '\<close>) carries the
  tree parsed from its payload, \<^verbatim>\<open>None\<close> when there is none. A \<^verbatim>\<open>Jp2k\<close> file is its
  box list and the samples its codestream decodes to, one list per index of the first axis.
  The codec is an external collaborator: decoding returns the samples that were encoded,
  and the box list of a fresh file is what the parameter \<open>encode_boxes\<close> gives for them.
\<close>

record box =
  box_id :: string
  xml :: "element option"

record jp2k =
  box :: "box list"
  pixels :: "8 word list list"

type_synonym files = "string \<Rightarrow> jp2k option"

section \<open>Reading\<close>

text \<open>
  Modelled from the spec: \<^verbatim>\<open>sunpy.util.xml.xml_to_dict\<close> is not among the sources. Its
  contract: "given an XML fragment whose root's children are leaf elements, returns a
  mapping from child tag to child text", here under the root's own tag. The fragment is
  represented by the element it serialises (\<^verbatim>\<open>ET.tostring\<close> and the parser are inverse on
  it). The contract does not say what two children of one tag give; the mapping is built
  as a \<^verbatim>\<open>dict\<close> is, the later text replacing the earlier. Outside the contract (a child
  with children of its own) the result is \<open>None\<close>.
\<close>

definition xml_to_dict :: "element \<Rightarrow> (string \<times> string pydict) list option" where
  "xml_to_dict e =
     (if list_all (\<lambda>c. children c = []) (children e)
      then Some [(tag e, fold (\<lambda>c d. setitem d (tag c) (etext c)) (children e) [])]
      else None)"

text \<open>Lines 54-55: the XML boxes of the file.\<close>

definition xml_boxes :: "files \<Rightarrow> string \<Rightarrow> error + box list" where
  "xml_boxes fs filepath =
     (case fs filepath of
        None \<Rightarrow> Inl CodecError
      | Some jp2 \<Rightarrow> Inr (filter (\<lambda>b. box_id b = ''xml '') (box jp2)))"

text \<open>
  Lines 55-56: \<^verbatim>\<open>xml_box[0].xml\<close>. Indexing the empty list raises \<^verbatim>\<open>IndexError\<close>; a box
  without a tree has \<^verbatim>\<open>None\<close> there, and the \<^verbatim>\<open>find\<close> on it raises \<^verbatim>\<open>AttributeError\<close>.
\<close>

definition first_xml :: "box list \<Rightarrow> error + element" where
  "first_xml xml_box =
     (case xml_box of
        [] \<Rightarrow> Inl IndexError
      | b # _ \<Rightarrow> (case xml b of None \<Rightarrow> Inl AttributeError | Some root \<Rightarrow> Inr root))"

text \<open>
  Lines 56-57: the mapping of the \<^verbatim>\<open>fits\<close> element. Serialising \<^verbatim>\<open>None\<close> (no such child)
  raises \<^verbatim>\<open>AttributeError\<close>.
\<close>

definition fits_dict :: "element \<Rightarrow> error + string pydict" where
  "fits_dict root =
     (case find_child root ''fits'' of
        None \<Rightarrow> Inl AttributeError
      | Some fits \<Rightarrow>
          (case xml_to_dict fits of
             None \<Rightarrow> Inl Unspecified
           | Some d \<Rightarrow> getitem d ''fits''))"

text \<open>Lines 60-64, the body of the loop for one item.\<close>

definition fix_type :: "(string \<Rightarrow> 'f option) \<Rightarrow> string \<Rightarrow> string \<Rightarrow> 'f pyval pydict \<Rightarrow> 'f pyval pydict" where
  "fix_type py_float k v pydict =
     (if isdigit v then setitem pydict k (PyInt (py_int v))
      else if string_is_float py_float v then setitem pydict k (PyFloat (the (py_float v)))
      else pydict)"

text \<open>The loop over \<^verbatim>\<open>pydict.items()\<close>; the values it meets are the strings of the parse.\<close>

fun fix_types :: "(string \<Rightarrow> 'f option) \<Rightarrow> string pydict \<Rightarrow> 'f pyval pydict \<Rightarrow> 'f pyval pydict" where
  "fix_types py_float [] pydict = pydict"
| "fix_types py_float ((k, v) # items) pydict = fix_types py_float items (fix_type py_float k v pydict)"

text \<open>
  Lines 67-68. \<^verbatim>\<open>replace\<close> is a method of strings only: on a number the attribute lookup
  raises \<^verbatim>\<open>AttributeError\<close>.
\<close>

definition strip_comment :: "'f pyval pydict \<Rightarrow> error + 'f pyval pydict" where
  "strip_comment pydict =
     (if contains pydict ''comment'' then
        (case getitem pydict ''comment'' of
           Inl e \<Rightarrow> Inl e
         | Inr (PyStr s) \<Rightarrow> Inr (setitem pydict ''comment'' (PyStr (remove_newlines s)))
         | Inr _ \<Rightarrow> Inl AttributeError)
      else Inr pydict)"

text \<open>Lines 54-57 together: the tree of the first XML box and the mapping parsed from it.\<close>

definition parse_fits :: "files \<Rightarrow> string \<Rightarrow> error + (element \<times> string pydict)" where
  "parse_fits fs filepath =
     (case xml_boxes fs filepath of
        Inl e \<Rightarrow> Inl e
      | Inr xml_box \<Rightarrow>
     (case first_xml xml_box of
        Inl e \<Rightarrow> Inl e
      | Inr root \<Rightarrow>
     (case fits_dict root of
        Inl e \<Rightarrow> Inl e
      | Inr pydict \<Rightarrow> Inr (root, pydict))))"

text \<open>The parsed mapping as the loop finds it: every value is a \<^verbatim>\<open>str\<close> object.\<close>

definition as_values :: "string pydict \<Rightarrow> 'f pyval pydict" where
  "as_values d = map (\<lambda>(k, v). (k, PyStr v)) d"

definition get_header :: "(string \<Rightarrow> 'f option) \<Rightarrow> files \<Rightarrow> string \<Rightarrow> error + 'f pyval pydict list" where
  "get_header py_float fs filepath =
     (case parse_fits fs filepath of
        Inl e \<Rightarrow> Inl e
      | Inr (root, strs) \<Rightarrow>
     (case strip_comment (fix_types py_float strs (as_values strs)) of
        Inl e \<Rightarrow> Inl e
      | Inr pydict \<Rightarrow>
          Inr [setitem pydict ''helioviewer'' (PyBool (find_child root ''helioviewer'' \<noteq> None))]))"

text \<open>
  \<^verbatim>\<open>read\<close>: the header, then the decoded samples with the first axis reversed.
\<close>

definition read :: "(string \<Rightarrow> 'f option) \<Rightarrow> files \<Rightarrow> string \<Rightarrow> error + (8 word list list \<times> 'f pyval pydict) list" where
  "read py_float fs filepath =
     (case get_header py_float fs filepath of
        Inl e \<Rightarrow> Inl e
      | Inr header \<Rightarrow>
     (case fs filepath of
        None \<Rightarrow> Inl CodecError
      | Some jp2 \<Rightarrow>
     (case header of
        [] \<Rightarrow> Inl IndexError
      | h # _ \<Rightarrow> Inr [(rev (pixels jp2), h)])))"

section \<open>Writing\<close>

text \<open>
  The header handed to \<^verbatim>\<open>header_to_xml\<close> is a mapping object: iterating it yields keys,
  possibly the same key several times, and \<^verbatim>\<open>header.get(key)\<close> yields the value of a key.
\<close>

record 'f header =
  iter :: "string list"
  get :: "string \<Rightarrow> 'f pyval"

text \<open>Lines 104-107: the text of a value.\<close>

definition data_text :: "('f \<Rightarrow> string) \<Rightarrow> 'f pyval \<Rightarrow> string" where
  "data_text str_float data =
     (case data of
        PyBool b \<Rightarrow> (if b then ''1'' else ''0'')
      | _ \<Rightarrow> py_str str_float data)"

text \<open>
  Lines 92-109: the loop, on the tree built so far and the set \<^verbatim>\<open>already_added\<close>. Keys
  are taken to be names that the XML library accepts as tags, as the data model of the
  specification requires of callers; the library's check of a tag is not modelled.
\<close>

fun header_to_xml_loop ::
  "('f \<Rightarrow> string) \<Rightarrow> 'f header \<Rightarrow> string list \<Rightarrow> element \<Rightarrow> string set \<Rightarrow> element" where
  "header_to_xml_loop str_float header [] fits already_added = fits"
| "header_to_xml_loop str_float header (key # rest) fits already_added =
     (if key \<in> already_added then header_to_xml_loop str_float header rest fits already_added
      else header_to_xml_loop str_float header rest
             (append fits (Element key (data_text str_float (get header key)) []))
             (insert key already_added))"

definition header_to_xml :: "('f \<Rightarrow> string) \<Rightarrow> 'f header \<Rightarrow> element" where
  "header_to_xml str_float header =
     header_to_xml_loop str_float header (iter header) (Element ''fits'' [] []) {}"

definition generate_jp2_xmlbox :: "('f \<Rightarrow> string) \<Rightarrow> 'f header \<Rightarrow> box" where
  "generate_jp2_xmlbox str_float header =
     \<lparr>box_id = ''xml '',
      xml = Some (append (Element ''meta'' [] []) (header_to_xml str_float header))\<rparr>"

definition get_tmp_jp2_file_name :: "string \<Rightarrow> string" where
  "get_tmp_jp2_file_name filename = filename @ ''.tmp.jp2''"

text \<open>\<^verbatim>\<open>np.uint8\<close> on an integer sample keeps its low eight bits.\<close>

definition np_uint8 :: "int \<Rightarrow> 8 word" where
  "np_uint8 x = word_of_int x"

text \<open>
  \<^verbatim>\<open>list.insert(i, x)\<close>: a negative index counts from the end, and an index beyond either
  end is moved to that end.
\<close>

definition insert_at :: "'a list \<Rightarrow> int \<Rightarrow> 'a \<Rightarrow> 'a list" where
  "insert_at xs i x =
     (let n = int (length xs);
          j = (if i < 0 then max (i + n) 0 else min i n)
      in take (nat j) xs @ [x] @ drop (nat j) xs)"

text \<open>
  \<^verbatim>\<open>write\<close>, named \<open>write_jp2\<close> here since \<^verbatim>\<open>write\<close> is a keyword of Isar: the codec writes
  the samples to the temporary file, the XML box goes before the last box of its box list, \<^verbatim>\<open>wrap\<close> writes the destination with that box list and the
  same codestream, and the temporary file is removed.
\<close>

definition write_jp2 ::
  "(8 word list list \<Rightarrow> box list) \<Rightarrow> ('f \<Rightarrow> string) \<Rightarrow> string \<Rightarrow> int list list \<Rightarrow> 'f header \<Rightarrow> files \<Rightarrow> files" where
  "write_jp2 encode_boxes str_float fname data header fs =
     (let tmpname = get_tmp_jp2_file_name fname;
          jp2_data = map (map np_uint8) data;
          jp2 = \<lparr>box = encode_boxes jp2_data, pixels = jp2_data\<rparr>;
          fs1 = fs(tmpname \<mapsto> jp2);
          meta_boxes = box jp2;
          target_index = int (length meta_boxes) - 1;
          fits_box = generate_jp2_xmlbox str_float header;
          meta_boxes = insert_at meta_boxes target_index fits_box;
          fs2 = fs1(fname \<mapsto> jp2\<lparr>box := meta_boxes\<rparr>)
      in fs2(tmpname := None))"

section \<open>The specification's wording\<close>

text \<open>
  The coercion rule as the specification words it: a string of digits becomes an integer,
  else a floating-point literal becomes a float, else the string stays.
\<close>

definition coerce :: "(string \<Rightarrow> 'f option) \<Rightarrow> string \<Rightarrow> 'f pyval" where
  "coerce py_float v =
     (if isdigit v then PyInt (py_int v)
      else (case py_float v of Some x \<Rightarrow> PyFloat x | None \<Rightarrow> PyStr v))"

text \<open>"Each distinct key once", in iteration order: every key at its first occurrence.\<close>

primrec distinct_keys :: "string list \<Rightarrow> string list" where
  "distinct_keys [] = []"
| "distinct_keys (k # ks) = k # filter (\<lambda>x. x \<noteq> k) (distinct_keys ks)"

text \<open>The text that is a number to the coercion pass.\<close>

definition is_number :: "(string \<Rightarrow> 'f option) \<Rightarrow> string \<Rightarrow> bool" where
  "is_number py_float s = (isdigit s \<or> string_is_float py_float s)"

text \<open>Clamping to the range of a byte, which \<^verbatim>\<open>np.uint8\<close> does not do.\<close>

definition clamp_uint8 :: "int \<Rightarrow> int" where
  "clamp_uint8 x = max 0 (min 255 x)"

text \<open>
  What a value of the header is once written and read back, for a key that the later steps
  leave alone. A string is coerced as any parsed string is. An integer that is not negative
  and a float come back as they are; a negative integer is printed with a sign, which is no
  digit, so it comes back as the float that \<^verbatim>\<open>float\<close> reads from its decimal text (as the
  text itself, were there no such float). A boolean comes back as the integer 1 or 0.
\<close>

definition read_back :: "(string \<Rightarrow> 'f option) \<Rightarrow> 'f pyval \<Rightarrow> 'f pyval" where
  "read_back py_float v =
     (case v of
        PyStr s \<Rightarrow> coerce py_float s
      | PyInt i \<Rightarrow>
          (if 0 \<le> i then PyInt i
           else (case py_float (str_int i) of Some x \<Rightarrow> PyFloat x | None \<Rightarrow> PyStr (str_int i)))
      | PyFloat x \<Rightarrow> PyFloat x
      | PyBool b \<Rightarrow> PyInt (if b then 1 else 0))"

text \<open>The comment as it comes back: a string without its newlines.\<close>

definition without_newlines :: "'f pyval \<Rightarrow> 'f pyval" where
  "without_newlines v = (case v of PyStr s \<Rightarrow> PyStr (remove_newlines s) | _ \<Rightarrow> v)"

text \<open>
  What the XML libraries, which are not modelled, ask of a header. A key is an XML name:
  a letter or an underscore, then letters, digits, underscores, hyphens and dots. The text
  of a value is made of printable ASCII characters and newlines: other control characters
  are refused or, like the carriage return, changed by the parser.
\<close>

definition name_start :: "char \<Rightarrow> bool" where
  "name_start c = (c \<in> set ''ABCDEFGHIJKLMNOPQRSTUVWXYZabcdefghijklmnopqrstuvwxyz_'')"

definition name_char :: "char \<Rightarrow> bool" where
  "name_char c = (name_start c \<or> c \<in> set ''0123456789-.'')"

definition tag_name :: "string \<Rightarrow> bool" where
  "tag_name k = (case k of [] \<Rightarrow> False | c # cs \<Rightarrow> name_start c \<and> list_all name_char cs)"

definition xml_safe :: "string \<Rightarrow> bool" where
  "xml_safe s = list_all (\<lambda>c. c = CHR 0x0A \<or> (32 \<le> (of_char c :: nat) \<and> (of_char c :: nat) \<le> 126)) s"

definition xml_safe_value :: "('f \<Rightarrow> string) \<Rightarrow> 'f pyval \<Rightarrow> bool" where
  "xml_safe_value str_float v =
     (case v of PyStr s \<Rightarrow> xml_safe s | PyFloat x \<Rightarrow> xml_safe (str_float x) | _ \<Rightarrow> True)"

text \<open>
  What Python gives for a float \<open>x\<close>: \<^verbatim>\<open>float(str(x))\<close> is \<open>x\<close> again, and \<^verbatim>\<open>str(x)\<close> is never
  made of digits only.
\<close>

definition float_round_trips :: "(string \<Rightarrow> 'f option) \<Rightarrow> ('f \<Rightarrow> string) \<Rightarrow> 'f pyval \<Rightarrow> bool" where
  "float_round_trips py_float str_float v =
     (case v of
        PyFloat x \<Rightarrow> py_float (str_float x) = Some x \<and> \<not> isdigit (str_float x)
      | _ \<Rightarrow> True)"

section \<open>Sample inputs\<close>

text \<open>
  A float is written here as mantissa and decimal exponent; the sample parser knows three
  literals, and the sample printer writes the floats back.
\<close>

definition sample_float :: "string \<Rightarrow> (int \<times> int) option" where
  "sample_float s =
     (if s = ''3.14'' then Some (314, - 2) else if s = ''2.5'' then Some (25, - 1)
      else if s = ''-5'' then Some (- 5, 0) else None)"

definition sample_str_float :: "int \<times> int \<Rightarrow> string" where
  "sample_str_float x =
     (if x = (314, - 2) then ''3.14'' else if x = (25, - 1) then ''2.5''
      else if x = (- 5, 0) then ''-5.0'' else ''nan'')"

text \<open>The box list of a fresh file: signature, file type, header and codestream boxes.\<close>

definition sample_boxes :: "8 word list list \<Rightarrow> box list" where
  "sample_boxes px =
     [\<lparr>box_id = ''jP  '', xml = None\<rparr>, \<lparr>box_id = ''ftyp'', xml = None\<rparr>,
      \<lparr>box_id = ''jp2h'', xml = None\<rparr>, \<lparr>box_id = ''jp2c'', xml = None\<rparr>]"

definition no_files :: files where
  "no_files p = None"

definition sample_header :: "(string \<times> (int \<times> int) pyval) list \<Rightarrow> (int \<times> int) header" where
  "sample_header kvs =
     \<lparr>iter = map fst kvs,
      get = (\<lambda>k. case map_of kvs k of Some v \<Rightarrow> v | None \<Rightarrow> PyStr ''None'')\<rparr>"

text \<open>
  A file whose box list holds one XML box with the given tree, and four trees: one of a
  Helioviewer file, two whose comment is a number, and one without the marker.
\<close>

definition file_with_tree :: "element \<Rightarrow> files" where
  "file_with_tree root p =
     (if p = ''hv.jp2''
      then Some \<lparr>box = [\<lparr>box_id = ''jP  '', xml = None\<rparr>, \<lparr>box_id = ''ftyp'', xml = None\<rparr>,
                        \<lparr>box_id = ''jp2h'', xml = None\<rparr>, \<lparr>box_id = ''xml '', xml = Some root\<rparr>,
                        \<lparr>box_id = ''jp2c'', xml = None\<rparr>],
                 pixels = [[1, 2], [3, 4]]\<rparr>
      else None)"

definition hv_tree :: element where
  "hv_tree =
     Element ''meta'' []
       [Element ''fits'' []
          [Element ''NAXIS'' ''42'' [], Element ''CDELT'' ''3.14'' [],
           Element ''TELESCOP'' ''hello'' [], Element ''comment'' ''line1\<newline>line2'' []],
        Element ''helioviewer'' [] [Element ''HV_ROTATION'' ''0'' []]]"

definition digits_comment_tree :: element where
  "digits_comment_tree = Element ''meta'' [] [Element ''fits'' [] [Element ''comment'' ''123'' []]]"

definition float_comment_tree :: element where
  "float_comment_tree = Element ''meta'' [] [Element ''fits'' [] [Element ''comment'' ''2.5'' []]]"

definition no_marker_tree :: element where
  "no_marker_tree = Element ''meta'' [] [Element ''fits'' [] [Element ''TELESCOP'' ''hello'' []]]"

text \<open>A file as the codec writes it, with no XML box.\<close>

definition plain_files :: files where
  "plain_files p =
     (if p = ''plain.jp2'' then Some \<lparr>box = sample_boxes [[0]], pixels = [[0]]\<rparr> else None)"

section \<open>The coercion pass and the comment step\<close>

lemma update_fresh: "k \<notin> fst ` set d \<Longrightarrow> AList.update k v d = d @ [(k, v)]"
  by (induction d) auto

lemma update_middle:
  "k \<notin> fst ` set pre \<Longrightarrow> AList.update k v (pre @ (k, w) # post) = pre @ (k, v) # post"
  by (induction pre) auto

lemma fix_type_coerce:
  assumes "k \<notin> fst ` set pre"
  shows "fix_type pf k v (pre @ (k, PyStr v) # post) = pre @ (k, coerce pf v) # post"
  using assms
  by (auto simp: fix_type_def coerce_def setitem_def string_is_float_def update_middle split: option.splits)

lemma fix_types_coerce_general:
  assumes "distinct (map fst items)" and "fst ` set pre \<inter> fst ` set items = {}"
  shows "fix_types pf items (pre @ as_values items) = pre @ map (\<lambda>(k, v). (k, coerce pf v)) items"
  using assms
proof (induction items arbitrary: pre)
  case Nil
  then show ?case by (simp add: as_values_def)
next
  case (Cons kv items)
  obtain k v where kv: "kv = (k, v)" by (cases kv)
  have fresh: "k \<notin> fst ` set pre" using Cons.prems(2) kv by auto
  have step: "fix_type pf k v (pre @ as_values (kv # items)) = (pre @ [(k, coerce pf v)]) @ as_values items"
    using fix_type_coerce [OF fresh, of pf v "as_values items"] by (simp add: kv as_values_def)
  have disj: "fst ` set (pre @ [(k, coerce pf v)]) \<inter> fst ` set items = {}"
    using Cons.prems kv by auto
  have dist: "distinct (map fst items)" using Cons.prems(1) by simp
  show ?case
    using Cons.IH [OF dist disj] step by (simp add: kv)
qed

lemma fix_types_coerce:
  "distinct (map fst items) \<Longrightarrow>
   fix_types pf items (as_values items) = map (\<lambda>(k, v). (k, coerce pf v)) items"
  using fix_types_coerce_general [of items "[]" pf] by simp

lemma fold_setitem_distinct:
  "distinct (map fst d) \<Longrightarrow> distinct (map fst (fold (\<lambda>c d. setitem d (tag c) (etext c)) cs d))"
  by (induction cs arbitrary: d) (simp_all add: setitem_def distinct_update)

lemma fits_dict_distinct: "fits_dict root = Inr strs \<Longrightarrow> distinct (map fst strs)"
  by (auto simp: fits_dict_def xml_to_dict_def getitem_def fold_setitem_distinct
      split: option.splits if_splits)

lemma parse_fits_distinct: "parse_fits fs fp = Inr (root, strs) \<Longrightarrow> distinct (map fst strs)"
  by (auto simp: parse_fits_def fits_dict_distinct split: sum.splits)

lemma map_of_coerced:
  "map_of (map (\<lambda>(k, v). (k, coerce pf v)) strs) k = map_option (coerce pf) (map_of strs k)"
  by (induction strs) auto

lemma strip_comment_coerced:
  "strip_comment (map (\<lambda>(k, v). (k, coerce pf v)) strs) =
     (case map_of strs ''comment'' of
        None \<Rightarrow> Inr (map (\<lambda>(k, v). (k, coerce pf v)) strs)
      | Some s \<Rightarrow>
          if is_number pf s then Inl AttributeError
          else Inr (setitem (map (\<lambda>(k, v). (k, coerce pf v)) strs) ''comment'' (PyStr (remove_newlines s))))"
proof (cases "map_of strs ''comment''")
  case None
  then show ?thesis by (simp add: strip_comment_def contains_def map_of_coerced)
next
  case (Some s)
  then have look: "map_of (map (\<lambda>(k, v). (k, coerce pf v)) strs) ''comment'' = Some (coerce pf s)"
    by (simp add: map_of_coerced)
  show ?thesis
  proof (cases "is_number pf s")
    case True
    then have "\<exists>i. coerce pf s = PyInt i \<or> (\<exists>x. coerce pf s = PyFloat x)"
      by (auto simp: coerce_def is_number_def string_is_float_def)
    then show ?thesis using Some True look
      by (auto simp: strip_comment_def contains_def getitem_def)
  next
    case False
    then have "coerce pf s = PyStr s"
      by (auto simp: coerce_def is_number_def string_is_float_def)
    then show ?thesis using Some False look
      by (simp add: strip_comment_def contains_def getitem_def)
  qed
qed

lemma get_header_eq:
  assumes "parse_fits fs fp = Inr (root, strs)"
  shows "get_header pf fs fp =
     (case map_of strs ''comment'' of
        None \<Rightarrow>
          Inr [setitem (map (\<lambda>(k, v). (k, coerce pf v)) strs) ''helioviewer''
                 (PyBool (find_child root ''helioviewer'' \<noteq> None))]
      | Some s \<Rightarrow>
          if is_number pf s then Inl AttributeError
          else Inr [setitem (setitem (map (\<lambda>(k, v). (k, coerce pf v)) strs) ''comment''
                               (PyStr (remove_newlines s)))
                      ''helioviewer'' (PyBool (find_child root ''helioviewer'' \<noteq> None))])"
  using assms parse_fits_distinct [OF assms]
  by (simp add: get_header_def fix_types_coerce strip_comment_coerced split: option.splits)


section \<open>Serialising a header and writing the file\<close>

lemma distinct_keys_set: "set (distinct_keys ks) = set ks"
  by (induction ks) auto

lemma distinct_keys_distinct: "distinct (distinct_keys ks)"
  by (induction ks) (auto simp: distinct_keys_set)

lemma distinct_keys_id: "distinct ks \<Longrightarrow> distinct_keys ks = ks"
  by (induction ks) (auto simp: distinct_keys_set filter_id_conv)

lemma header_to_xml_loop_eq:
  "header_to_xml_loop sf h ks fits added =
     Element (tag fits) (etext fits)
       (children fits @
        map (\<lambda>k. Element k (data_text sf (get h k)) []) (filter (\<lambda>k. k \<notin> added) (distinct_keys ks)))"
proof (induction ks arbitrary: fits added)
  case Nil
  then show ?case by simp
next
  case (Cons k ks)
  show ?case
  proof (cases "k \<in> added")
    case True
    then have "filter (\<lambda>x. x \<noteq> k \<and> x \<notin> added) (distinct_keys ks) = filter (\<lambda>x. x \<notin> added) (distinct_keys ks)"
      by (intro filter_cong) auto
    then show ?thesis using True Cons.IH by simp
  next
    case False
    then show ?thesis using Cons.IH by (simp add: append_def)
  qed
qed

lemma header_to_xml_eq:
  "header_to_xml sf h =
     Element ''fits'' [] (map (\<lambda>k. Element k (data_text sf (get h k)) []) (distinct_keys (iter h)))"
  by (simp add: header_to_xml_def header_to_xml_loop_eq)

lemma insert_at_before_last:
  "xs \<noteq> [] \<Longrightarrow> insert_at xs (int (length xs) - 1) x = butlast xs @ [x, last xs]"
proof -
  assume ne: "xs \<noteq> []"
  then have len: "0 < length xs" by simp
  have j: "nat (int (length xs) - 1) = length xs - 1" by simp
  have t: "take (length xs - 1) xs = butlast xs" by (simp add: butlast_conv_take)
  have d: "drop (length xs - 1) xs = [last xs]"
    using ne by (metis append_butlast_last_id append_eq_conv_conj length_butlast)
  show ?thesis using len t d
    by (simp add: insert_at_def Let_def j min_def)
qed

lemma insert_at_empty: "insert_at [] (- 1) x = [x]"
  by (simp add: insert_at_def)

lemma tmp_name_differs: "get_tmp_jp2_file_name fname \<noteq> fname"
  by (simp add: get_tmp_jp2_file_name_def)

lemma write_jp2_file:
  "write_jp2 enc sf fname data header fs fname =
     Some \<lparr>box = insert_at (enc (map (map np_uint8) data))
                   (int (length (enc (map (map np_uint8) data))) - 1)
                   (generate_jp2_xmlbox sf header),
           pixels = map (map np_uint8) data\<rparr>"
  using tmp_name_differs [of fname] by (simp add: write_jp2_def Let_def)


lemma fold_setitem_fresh:
  "distinct (map tag cs) \<Longrightarrow> tag ` set cs \<inter> fst ` set d = {} \<Longrightarrow>
   fold (\<lambda>c d. setitem d (tag c) (etext c)) cs d = d @ map (\<lambda>c. (tag c, etext c)) cs"
proof (induction cs arbitrary: d)
  case Nil
  then show ?case by simp
next
  case (Cons c cs)
  have fresh: "tag c \<notin> fst ` set d" using Cons.prems(2) by auto
  have upd: "setitem d (tag c) (etext c) = d @ [(tag c, etext c)]"
    using fresh by (simp add: setitem_def update_fresh)
  have disj: "tag ` set cs \<inter> fst ` set (d @ [(tag c, etext c)]) = {}"
    using Cons.prems by auto
  have dist: "distinct (map tag cs)" using Cons.prems(1) by simp
  show ?case using Cons.IH [OF dist disj] upd by simp
qed

lemma fits_dict_meta:
  "fits_dict (append (Element ''meta'' [] []) (header_to_xml sf h)) =
     Inr (map (\<lambda>k. (k, data_text sf (get h k))) (distinct_keys (iter h)))"
proof -
  let ?cs = "map (\<lambda>k. Element k (data_text sf (get h k)) []) (distinct_keys (iter h))"
  have tags: "map tag ?cs = distinct_keys (iter h)" by (simp add: comp_def)
  have dist: "distinct (map tag ?cs)" by (simp only: tags distinct_keys_distinct)
  have fold_eq: "fold (\<lambda>c d. setitem d (tag c) (etext c)) ?cs [] = map (\<lambda>c. (tag c, etext c)) ?cs"
    using fold_setitem_fresh [OF dist, of "[]"] by simp
  have leaves: "list_all (\<lambda>c. children c = []) ?cs" by (simp add: list_all_iff)
  have x2d: "xml_to_dict (header_to_xml sf h) =
      Some [(''fits'', map (\<lambda>k. (k, data_text sf (get h k))) (distinct_keys (iter h)))]"
    unfolding xml_to_dict_def header_to_xml_eq element.sel using leaves fold_eq
    by (simp add: comp_def)
  have found: "find_child (append (Element ''meta'' [] []) (header_to_xml sf h)) ''fits'' =
      Some (header_to_xml sf h)"
    by (simp add: find_child_def append_def header_to_xml_eq)
  show ?thesis by (simp add: fits_dict_def found x2d getitem_def)
qed

lemma filter_no_xml:
  "list_all (\<lambda>b. box_id b \<noteq> ''xml '') bs \<Longrightarrow> filter (\<lambda>b. box_id b = ''xml '') bs = []"
  by (induction bs) auto

lemma xml_boxes_inserted:
  assumes "list_all (\<lambda>b. box_id b \<noteq> ''xml '') bs" and "box_id x = ''xml ''"
  shows "filter (\<lambda>b. box_id b = ''xml '') (insert_at bs (int (length bs) - 1) x) = [x]"
proof (cases "bs = []")
  case True
  then show ?thesis using assms(2) by (simp add: insert_at_empty)
next
  case False
  have "list_all (\<lambda>b. box_id b \<noteq> ''xml '') (butlast bs)"
    using assms(1) by (auto simp: list_all_iff dest: in_set_butlastD)
  moreover have "box_id (last bs) \<noteq> ''xml ''"
    using assms(1) False by (simp add: list_all_iff)
  ultimately show ?thesis
    using False assms(2) by (simp add: insert_at_before_last filter_no_xml)
qed

lemma parse_fits_written:
  assumes "list_all (\<lambda>b. box_id b \<noteq> ''xml '') (enc (map (map np_uint8) data))"
  shows "parse_fits (write_jp2 enc sf fname data h fs) fname =
     Inr (append (Element ''meta'' [] []) (header_to_xml sf h),
          map (\<lambda>k. (k, data_text sf (get h k))) (distinct_keys (iter h)))"
proof -
  have id: "box_id (generate_jp2_xmlbox sf h) = ''xml ''"
    by (simp add: generate_jp2_xmlbox_def)
  have boxes: "xml_boxes (write_jp2 enc sf fname data h fs) fname = Inr [generate_jp2_xmlbox sf h]"
    using xml_boxes_inserted [OF assms id] by (simp add: xml_boxes_def write_jp2_file)
  have first: "first_xml [generate_jp2_xmlbox sf h] =
      Inr (append (Element ''meta'' [] []) (header_to_xml sf h))"
    by (simp add: first_xml_def generate_jp2_xmlbox_def)
  show ?thesis by (simp add: parse_fits_def boxes first fits_dict_meta)
qed

lemma map_of_written:
  "map_of (map (\<lambda>k. (k, f k)) ks) k = (if k \<in> set ks then Some (f k) else None)"
  by (induction ks) auto

lemma no_helioviewer_sibling:
  "find_child (append (Element ''meta'' [] []) (header_to_xml sf h)) ''helioviewer'' = None"
  by (simp add: find_child_def append_def header_to_xml_eq)

lemma uint_np_uint8: "uint (np_uint8 x) = x mod 256"
  by (simp add: np_uint8_def uint_word_of_int)


section \<open>Printing and reading back a value\<close>

lemma digit_chars_nth: "d < 10 \<Longrightarrow> digit_chars ! d \<in> set digit_chars \<and> digit_value (digit_chars ! d) = int d"
proof -
  assume "d < 10"
  then have "d \<in> {0, 1, 2, 3, 4, 5, 6, 7, 8, 9}" by auto
  then show ?thesis by (auto simp: digit_chars_def digit_value_def)
qed

lemma py_int_snoc: "py_int (s @ [c]) = 10 * py_int s + digit_value c"
  by (simp add: py_int_def)

lemma isdigit_snoc: "isdigit s \<Longrightarrow> c \<in> set digit_chars \<Longrightarrow> isdigit (s @ [c])"
  by (simp add: isdigit_def)

lemma str_nat_digits: "isdigit (str_nat n) \<and> py_int (str_nat n) = int n"
proof (induction n rule: str_nat.induct)
  case (1 n)
  show ?case
  proof (cases "n < 10")
    case True
    then show ?thesis
      using digit_chars_nth [of n] by (simp add: str_nat.simps [of n] isdigit_def py_int_def)
  next
    case False
    have d: "n mod 10 < 10" by simp
    have ih: "isdigit (str_nat (n div 10))" "py_int (str_nat (n div 10)) = int (n div 10)"
      using "1.IH" False by simp_all
    have unfold: "str_nat n = str_nat (n div 10) @ [digit_chars ! (n mod 10)]"
      using False by (simp add: str_nat.simps [of n])
    have "int n = 10 * int (n div 10) + int (n mod 10)" by presburger
    then show ?thesis
      using ih digit_chars_nth [OF d] by (simp add: unfold py_int_snoc isdigit_snoc)
  qed
qed

lemma coerce_bool: "coerce pf (data_text sf (PyBool b)) = PyInt (if b then 1 else 0)"
  by (simp add: coerce_def data_text_def isdigit_def digit_chars_def py_int_def digit_value_def)

lemma coerce_nonneg_int: "0 \<le> i \<Longrightarrow> coerce pf (data_text sf (PyInt i)) = PyInt i"
  using str_nat_digits [of "nat i"] by (simp add: coerce_def data_text_def str_int_def)

lemma coerce_text: "\<not> is_number pf s \<Longrightarrow> coerce pf (data_text sf (PyStr s)) = PyStr s"
  by (auto simp: coerce_def data_text_def is_number_def string_is_float_def split: option.splits)

lemma coerce_float:
  "\<not> isdigit (sf x) \<Longrightarrow> pf (sf x) = Some x \<Longrightarrow> coerce pf (data_text sf (PyFloat x)) = PyFloat x"
  by (simp add: coerce_def data_text_def)


section \<open>The sample files, parsed\<close>

lemma parse_hv:
  "parse_fits (file_with_tree hv_tree) ''hv.jp2'' =
     Inr (hv_tree, [(''NAXIS'', ''42''), (''CDELT'', ''3.14''), (''TELESCOP'', ''hello''),
                    (''comment'', ''line1\<newline>line2'')])"
  by (simp add: parse_fits_def xml_boxes_def first_xml_def fits_dict_def file_with_tree_def
      hv_tree_def find_child_def xml_to_dict_def setitem_def getitem_def)

lemma parse_digits_comment:
  "parse_fits (file_with_tree digits_comment_tree) ''hv.jp2'' =
     Inr (digits_comment_tree, [(''comment'', ''123'')])"
  by (simp add: parse_fits_def xml_boxes_def first_xml_def fits_dict_def file_with_tree_def
      digits_comment_tree_def find_child_def xml_to_dict_def setitem_def getitem_def)

lemma parse_float_comment:
  "parse_fits (file_with_tree float_comment_tree) ''hv.jp2'' =
     Inr (float_comment_tree, [(''comment'', ''2.5'')])"
  by (simp add: parse_fits_def xml_boxes_def first_xml_def fits_dict_def file_with_tree_def
      float_comment_tree_def find_child_def xml_to_dict_def setitem_def getitem_def)

lemma parse_no_marker:
  "parse_fits (file_with_tree no_marker_tree) ''hv.jp2'' =
     Inr (no_marker_tree, [(''TELESCOP'', ''hello'')])"
  by (simp add: parse_fits_def xml_boxes_def first_xml_def fits_dict_def file_with_tree_def
      no_marker_tree_def find_child_def xml_to_dict_def setitem_def getitem_def)

lemma isdigit_samples:
  "isdigit ''42''" "isdigit ''123''" "\<not> isdigit ''3.14''" "\<not> isdigit ''2.5''" "\<not> isdigit ''hello''"
  "\<not> isdigit ''line1\<newline>line2''" "py_int ''42'' = 42"
  by (simp_all add: isdigit_def digit_chars_def py_int_def digit_value_def)

section \<open>Reading: missing metadata, coercion, comment and marker\<close>

text \<open>
  Claim C2, as the code has it. The claim asks for \<open>MissingMetadataError\<close> when the box
  list of a well-formed file holds no XML box. The code has no such error: the list of XML
  boxes is empty, \<^verbatim>\<open>xml_box[0]\<close> raises \<^verbatim>\<open>IndexError\<close>, and \<^verbatim>\<open>read\<close>, which calls
  \<^verbatim>\<open>get_header\<close> first, raises the same.
\<close>

theorem no_xml_box_index_error:
  assumes "fs filepath = Some jp2" and "list_all (\<lambda>b. box_id b \<noteq> ''xml '') (box jp2)"
  shows "get_header py_float fs filepath = Inl IndexError \<and> read py_float fs filepath = Inl IndexError"
proof -
  have "xml_boxes fs filepath = Inr []"
    using assms by (simp add: xml_boxes_def filter_no_xml)
  then have "get_header py_float fs filepath = Inl IndexError"
    by (simp add: get_header_def parse_fits_def first_xml_def)
  then show ?thesis by (simp add: read_def)
qed

text \<open>The theorem at a file as the codec writes it: four boxes, none of them XML.\<close>

theorem no_xml_box_index_error_witness:
  "plain_files ''plain.jp2'' = Some \<lparr>box = sample_boxes [[0]], pixels = [[0]]\<rparr> \<and>
   list_all (\<lambda>b. box_id b \<noteq> ''xml '') (sample_boxes [[0]]) \<and>
   get_header sample_float plain_files ''plain.jp2'' = Inl IndexError \<and>
   read sample_float plain_files ''plain.jp2'' = Inl IndexError"
proof -
  have f: "plain_files ''plain.jp2'' = Some \<lparr>box = sample_boxes [[0]], pixels = [[0]]\<rparr>"
    by (simp add: plain_files_def)
  have n: "list_all (\<lambda>b. box_id b \<noteq> ''xml '') (box \<lparr>box = sample_boxes [[0]], pixels = [[0]]\<rparr>)"
    by (simp add: sample_boxes_def)
  show ?thesis
    using f n no_xml_box_index_error
        [of plain_files "''plain.jp2''" "\<lparr>box = sample_boxes [[0]], pixels = [[0]]\<rparr>" sample_float]
    by simp
qed

text \<open>
  Claim C2 as stated fails on that file: the error is \<open>IndexError\<close>, which the claim
  excludes, and it is not \<open>MissingMetadataError\<close>.
\<close>

theorem missing_metadata_error_counterexample:
  "get_header sample_float plain_files ''plain.jp2'' = Inl IndexError \<and>
   get_header sample_float plain_files ''plain.jp2'' \<noteq> Inl MissingMetadataError \<and>
   read sample_float plain_files ''plain.jp2'' = Inl IndexError"
  by (simp add: read_def get_header_def parse_fits_def xml_boxes_def first_xml_def plain_files_def sample_boxes_def)

text \<open>
  Claim C4. Every string \<open>v\<close> that the parse of the XML fragment gives for a key \<open>k\<close> is
  coerced by the loop of \<^verbatim>\<open>get_header\<close> to \<open>coerce py_float v\<close>: the integer \<open>py_int v\<close>
  when \<open>v\<close> is made of digits, else the float \<^verbatim>\<open>float(v)\<close> when that exists, else \<open>v\<close>
  itself. The header that \<^verbatim>\<open>get_header\<close> returns holds that value for every key other than
  \<^verbatim>\<open>comment\<close> and \<^verbatim>\<open>helioviewer\<close>, which the two later steps assign.
\<close>

theorem get_header_coerces_types:
  assumes "parse_fits fs filepath = Inr (root, strs)" and "map_of strs k = Some v"
  shows "map_of (fix_types py_float strs (as_values strs)) k = Some (coerce py_float v) \<and>
         (\<forall>h. get_header py_float fs filepath = Inr [h] \<and> k \<noteq> ''comment'' \<and> k \<noteq> ''helioviewer''
              \<longrightarrow> map_of h k = Some (coerce py_float v)) \<and>
         (isdigit v \<longrightarrow> coerce py_float v = PyInt (py_int v)) \<and>
         (\<forall>x. \<not> isdigit v \<and> py_float v = Some x \<longrightarrow> coerce py_float v = PyFloat x) \<and>
         (\<not> isdigit v \<and> py_float v = None \<longrightarrow> coerce py_float v = PyStr v)"
proof -
  have dist: "distinct (map fst strs)" using assms(1) by (rule parse_fits_distinct)
  have loop: "map_of (fix_types py_float strs (as_values strs)) k = Some (coerce py_float v)"
    using assms(2) by (simp add: fix_types_coerce [OF dist] map_of_coerced)
  have final: "map_of h k = Some (coerce py_float v)"
    if "get_header py_float fs filepath = Inr [h]" "k \<noteq> ''comment''" "k \<noteq> ''helioviewer''" for h
    using that assms(2) get_header_eq [OF assms(1), of py_float]
    by (auto simp: setitem_def update_conv' map_of_coerced split: option.splits if_splits)
  show ?thesis using loop final by (simp add: coerce_def)
qed

text \<open>
  The theorem on a Helioviewer file: \<^verbatim>\<open>"42"\<close> becomes the integer 42, \<^verbatim>\<open>"3.14"\<close> the float
  3.14 and \<^verbatim>\<open>"hello"\<close> stays.
\<close>

theorem get_header_coerces_types_witness:
  "parse_fits (file_with_tree hv_tree) ''hv.jp2'' =
     Inr (hv_tree, [(''NAXIS'', ''42''), (''CDELT'', ''3.14''), (''TELESCOP'', ''hello''),
                    (''comment'', ''line1\<newline>line2'')]) \<and>
   get_header sample_float (file_with_tree hv_tree) ''hv.jp2'' =
     Inr [[(''NAXIS'', PyInt 42), (''CDELT'', PyFloat (314, - 2)), (''TELESCOP'', PyStr ''hello''),
           (''comment'', PyStr ''line1line2''), (''helioviewer'', PyBool True)]] \<and>
   map_of (fix_types sample_float
            [(''NAXIS'', ''42''), (''CDELT'', ''3.14''), (''TELESCOP'', ''hello''),
             (''comment'', ''line1\<newline>line2'')]
            (as_values [(''NAXIS'', ''42''), (''CDELT'', ''3.14''), (''TELESCOP'', ''hello''),
             (''comment'', ''line1\<newline>line2'')])) ''NAXIS'' = Some (PyInt 42) \<and>
   coerce sample_float ''42'' = PyInt 42 \<and>
   coerce sample_float ''3.14'' = PyFloat (314, - 2) \<and>
   coerce sample_float ''hello'' = PyStr ''hello''"
proof -
  let ?strs = "[(''NAXIS'', ''42''), (''CDELT'', ''3.14''), (''TELESCOP'', ''hello''),
                (''comment'', ''line1\<newline>line2'')]"
  have gh: "get_header sample_float (file_with_tree hv_tree) ''hv.jp2'' =
     Inr [[(''NAXIS'', PyInt 42), (''CDELT'', PyFloat (314, - 2)), (''TELESCOP'', PyStr ''hello''),
           (''comment'', PyStr ''line1line2''), (''helioviewer'', PyBool True)]]"
    unfolding get_header_def parse_hv
    by (simp add: fix_type_def as_values_def isdigit_samples
        string_is_float_def sample_float_def setitem_def strip_comment_def contains_def getitem_def
        remove_newlines_def find_child_def hv_tree_def)
  have a: "map_of ?strs ''NAXIS'' = Some ''42''" by simp
  have b: "map_of ?strs ''CDELT'' = Some ''3.14''" by simp
  have c: "map_of ?strs ''TELESCOP'' = Some ''hello''" by simp
  have f1: "sample_float ''3.14'' = Some (314, - 2)" and f2: "sample_float ''hello'' = None"
    by (simp_all add: sample_float_def)
  note ta = get_header_coerces_types [OF parse_hv a, of sample_float]
  note tb = get_header_coerces_types [OF parse_hv b, of sample_float]
  note tc = get_header_coerces_types [OF parse_hv c, of sample_float]
  have ca: "coerce sample_float ''42'' = PyInt 42"
    using ta isdigit_samples(1) isdigit_samples(7) by metis
  have cb: "coerce sample_float ''3.14'' = PyFloat (314, - 2)"
    using tb isdigit_samples(3) f1 by blast
  have cc: "coerce sample_float ''hello'' = PyStr ''hello''"
    using tc isdigit_samples(5) f2 by blast
  have la: "map_of (fix_types sample_float ?strs (as_values ?strs)) ''NAXIS'' = Some (PyInt 42)"
    using ta ca by metis
  show ?thesis
    using parse_hv gh la ca cb cc by blast
qed


lemma find_child_list_ex:
  "(find_child root name \<noteq> None) = list_ex (\<lambda>c. tag c = name) (children root)"
  by (auto simp: find_child_def find_None_iff list_ex_iff)

lemma strip_comment_absent:
  "\<not> contains pydict ''comment'' \<Longrightarrow> strip_comment pydict = Inr pydict"
  by (simp add: strip_comment_def)

text \<open>
  Claim C8 fails on the code where the text of \<^verbatim>\<open>comment\<close> is a number. On a file whose
  comment is \<^verbatim>\<open>123\<close> the claim has \<^verbatim>\<open>get_header\<close> return the comment without its newlines,
  that is \<^verbatim>\<open>123\<close>; the code has coerced the value to an integer by then, and the call of
  \<^verbatim>\<open>replace\<close> on it raises \<^verbatim>\<open>AttributeError\<close>.
\<close>

theorem comment_of_digits_raises:
  "parse_fits (file_with_tree digits_comment_tree) ''hv.jp2'' =
     Inr (digits_comment_tree, [(''comment'', ''123'')]) \<and>
   get_header sample_float (file_with_tree digits_comment_tree) ''hv.jp2'' = Inl AttributeError"
proof -
  have "get_header sample_float (file_with_tree digits_comment_tree) ''hv.jp2'' = Inl AttributeError"
    unfolding get_header_def parse_digits_comment
    by (simp add: fix_type_def as_values_def isdigit_samples setitem_def strip_comment_def
        contains_def getitem_def)
  then show ?thesis using parse_digits_comment by simp
qed

text \<open>
  Claim C9. The header that \<^verbatim>\<open>get_header\<close> returns is a list of one mapping, and its key
  \<^verbatim>\<open>helioviewer\<close> holds a boolean: true exactly when the root of the tree of the XML box has
  a child element named \<^verbatim>\<open>helioviewer\<close>, a sibling of \<^verbatim>\<open>fits\<close>, whatever that element holds.
\<close>

theorem helioviewer_marker:
  assumes "parse_fits fs filepath = Inr (root, strs)" and "get_header py_float fs filepath = Inr hs"
  shows "\<exists>h. hs = [h] \<and>
           map_of h ''helioviewer'' =
             Some (PyBool (list_ex (\<lambda>c. tag c = ''helioviewer'') (children root)))"
proof -
  note eq = get_header_eq [OF assms(1), of py_float, unfolded find_child_list_ex]
  show ?thesis
    using assms(2) eq
    by (auto simp: setitem_def update_conv' split: option.splits if_splits)
qed

text \<open>
  The theorem on a file with the marker (which has content of its own) and on one
  without it.
\<close>

theorem helioviewer_marker_witness:
  "parse_fits (file_with_tree hv_tree) ''hv.jp2'' =
     Inr (hv_tree, [(''NAXIS'', ''42''), (''CDELT'', ''3.14''), (''TELESCOP'', ''hello''),
                    (''comment'', ''line1\<newline>line2'')]) \<and>
   list_ex (\<lambda>c. tag c = ''helioviewer'') (children hv_tree) \<and>
   (\<exists>h. get_header sample_float (file_with_tree hv_tree) ''hv.jp2'' = Inr [h] \<and>
        map_of h ''helioviewer'' = Some (PyBool True)) \<and>
   parse_fits (file_with_tree no_marker_tree) ''hv.jp2'' =
     Inr (no_marker_tree, [(''TELESCOP'', ''hello'')]) \<and>
   \<not> list_ex (\<lambda>c. tag c = ''helioviewer'') (children no_marker_tree) \<and>
   (\<exists>h. get_header sample_float (file_with_tree no_marker_tree) ''hv.jp2'' = Inr [h] \<and>
        map_of h ''helioviewer'' = Some (PyBool False))"
proof -
  have gh: "get_header sample_float (file_with_tree hv_tree) ''hv.jp2'' =
     Inr [[(''NAXIS'', PyInt 42), (''CDELT'', PyFloat (314, - 2)), (''TELESCOP'', PyStr ''hello''),
           (''comment'', PyStr ''line1line2''), (''helioviewer'', PyBool True)]]"
    unfolding get_header_def parse_hv
    by (simp add: fix_type_def as_values_def isdigit_samples
        string_is_float_def sample_float_def setitem_def strip_comment_def contains_def getitem_def
        remove_newlines_def find_child_def hv_tree_def)
  have ex: "list_ex (\<lambda>c. tag c = ''helioviewer'') (children hv_tree)"
    by (simp add: hv_tree_def)
  have nex: "\<not> list_ex (\<lambda>c. tag c = ''helioviewer'') (children no_marker_tree)"
    by (simp add: no_marker_tree_def)
  have gn: "get_header sample_float (file_with_tree no_marker_tree) ''hv.jp2'' =
     Inr [[(''TELESCOP'', PyStr ''hello''), (''helioviewer'', PyBool False)]]"
    unfolding get_header_def parse_no_marker
    by (simp add: fix_type_def as_values_def isdigit_samples
        string_is_float_def sample_float_def setitem_def strip_comment_def contains_def
        find_child_def no_marker_tree_def)
  have absent: "\<exists>h. get_header sample_float (file_with_tree no_marker_tree) ''hv.jp2'' = Inr [h] \<and>
        map_of h ''helioviewer'' = Some (PyBool False)"
    using helioviewer_marker [OF parse_no_marker gn] gn nex by simp
  have "\<exists>h. get_header sample_float (file_with_tree hv_tree) ''hv.jp2'' = Inr [h] \<and>
        map_of h ''helioviewer'' = Some (PyBool True)"
    using helioviewer_marker [OF parse_hv gh] gh ex by simp
  then show ?thesis using parse_hv parse_no_marker ex nex absent by blast
qed

text \<open>
  Claim C10. The comment step comes after the coercion pass. When the text of \<^verbatim>\<open>comment\<close>
  is made of digits or is a float literal, the pass has replaced it by a number, which is
  no string, and \<^verbatim>\<open>get_header\<close> raises \<^verbatim>\<open>AttributeError\<close>; when it is neither,
  \<^verbatim>\<open>get_header\<close> returns a header, with the newlines of the comment removed.
\<close>

theorem numeric_comment_raises:
  assumes "parse_fits fs filepath = Inr (root, strs)" and "map_of strs ''comment'' = Some s"
  shows "(isdigit s \<or> string_is_float py_float s \<longrightarrow>
            map_of (fix_types py_float strs (as_values strs)) ''comment'' = Some (coerce py_float s) \<and>
            (\<forall>t. coerce py_float s \<noteq> PyStr t) \<and>
            get_header py_float fs filepath = Inl AttributeError) \<and>
         (\<not> isdigit s \<and> \<not> string_is_float py_float s \<longrightarrow>
            (\<exists>h. get_header py_float fs filepath = Inr [h] \<and>
                 map_of h ''comment'' = Some (PyStr (remove_newlines s))))"
proof -
  have dist: "distinct (map fst strs)" using assms(1) by (rule parse_fits_distinct)
  have loop: "map_of (fix_types py_float strs (as_values strs)) ''comment'' = Some (coerce py_float s)"
    using assms(2) by (simp add: fix_types_coerce [OF dist] map_of_coerced)
  have number: "\<forall>t. coerce py_float s \<noteq> PyStr t" if "isdigit s \<or> string_is_float py_float s"
    using that by (auto simp: coerce_def string_is_float_def)
  have raises: "get_header py_float fs filepath = Inl AttributeError"
    if "isdigit s \<or> string_is_float py_float s"
    using that assms(2) get_header_eq [OF assms(1), of py_float] by (simp add: is_number_def)
  have safe: "\<exists>h. get_header py_float fs filepath = Inr [h] \<and>
                 map_of h ''comment'' = Some (PyStr (remove_newlines s))"
    if "\<not> isdigit s \<and> \<not> string_is_float py_float s"
    using that assms(2) get_header_eq [OF assms(1), of py_float]
    by (simp add: is_number_def setitem_def update_conv')
  show ?thesis using loop number raises safe by blast
qed

text \<open>
  The theorem on a file whose comment is \<^verbatim>\<open>2.5\<close>, and on the Helioviewer file, whose
  comment is two lines of text.
\<close>

theorem numeric_comment_raises_witness:
  "parse_fits (file_with_tree float_comment_tree) ''hv.jp2'' =
     Inr (float_comment_tree, [(''comment'', ''2.5'')]) \<and>
   string_is_float sample_float ''2.5'' \<and>
   coerce sample_float ''2.5'' = PyFloat (25, - 1) \<and>
   get_header sample_float (file_with_tree float_comment_tree) ''hv.jp2'' = Inl AttributeError \<and>
   \<not> isdigit ''line1\<newline>line2'' \<and> \<not> string_is_float sample_float ''line1\<newline>line2'' \<and>
   (\<exists>h. get_header sample_float (file_with_tree hv_tree) ''hv.jp2'' = Inr [h] \<and>
        map_of h ''comment'' = Some (PyStr ''line1line2''))"
proof -
  have a: "map_of [(''comment'', ''2.5'')] ''comment'' = Some ''2.5''" by simp
  have b: "map_of [(''NAXIS'', ''42''), (''CDELT'', ''3.14''), (''TELESCOP'', ''hello''),
                   (''comment'', ''line1\<newline>line2'')] ''comment'' = Some ''line1\<newline>line2''"
    by simp
  have fl: "string_is_float sample_float ''2.5''"
    by (simp add: string_is_float_def sample_float_def)
  have co: "coerce sample_float ''2.5'' = PyFloat (25, - 1)"
    by (simp add: coerce_def isdigit_samples sample_float_def)
  have nf: "\<not> string_is_float sample_float ''line1\<newline>line2''"
    by (simp add: string_is_float_def sample_float_def)
  have rn: "remove_newlines ''line1\<newline>line2'' = ''line1line2''"
    by (simp add: remove_newlines_def)
  have raises: "get_header sample_float (file_with_tree float_comment_tree) ''hv.jp2'' = Inl AttributeError"
    using numeric_comment_raises [OF parse_float_comment a, of sample_float] fl by blast
  have safe: "\<exists>h. get_header sample_float (file_with_tree hv_tree) ''hv.jp2'' = Inr [h] \<and>
        map_of h ''comment'' = Some (PyStr ''line1line2'')"
    using numeric_comment_raises [OF parse_hv b, of sample_float] nf isdigit_samples(6)
    unfolding rn by blast
  show ?thesis using parse_float_comment fl co raises nf isdigit_samples(6) safe by blast
qed


section \<open>Writing: serialisation, box order and samples\<close>

text \<open>
  Claim C6. \<^verbatim>\<open>header_to_xml\<close> returns an element named \<^verbatim>\<open>fits\<close> with one child for each
  distinct key of the header, however often iteration yields the key: the children come in
  iteration order, each key at its first occurrence and unsorted (\<open>distinct_keys\<close>; the
  iteration order itself when no key repeats). A child is named after its key; its text is
  \<^verbatim>\<open>1\<close> or \<^verbatim>\<open>0\<close> for a boolean value and the default string conversion of the value
  otherwise.
\<close>

theorem header_to_xml_children:
  "header_to_xml str_float header =
     Element ''fits'' []
       (map (\<lambda>k. Element k
                   (case get header k of
                      PyBool b \<Rightarrow> (if b then ''1'' else ''0'')
                    | v \<Rightarrow> py_str str_float v) [])
            (distinct_keys (iter header))) \<and>
   distinct (distinct_keys (iter header)) \<and>
   set (distinct_keys (iter header)) = set (iter header) \<and>
   (distinct (iter header) \<longrightarrow> distinct_keys (iter header) = iter header)"
proof -
  have "data_text str_float v = (case v of PyBool b \<Rightarrow> (if b then ''1'' else ''0'') | v \<Rightarrow> py_str str_float v)"
    for v :: "'a pyval"
    by (cases v) (simp_all add: data_text_def)
  then show ?thesis
    by (simp add: header_to_xml_eq distinct_keys_distinct distinct_keys_set distinct_keys_id)
qed

text \<open>
  The theorem on a header whose key \<^verbatim>\<open>HISTORY\<close> comes twice, with values of the four kinds,
  and on the keys b, a, c, which stay in that order.
\<close>

theorem header_to_xml_children_witness:
  "header_to_xml sample_str_float
     (sample_header [(''NAXIS'', PyInt 42), (''HISTORY'', PyStr ''first''), (''BLANK'', PyBool True),
                     (''HISTORY'', PyStr ''second''), (''BZERO'', PyBool False),
                     (''CDELT'', PyFloat (314, - 2)), (''CRPIX'', PyInt (- 5))]) =
     Element ''fits'' []
       [Element ''NAXIS'' ''42'' [], Element ''HISTORY'' ''first'' [], Element ''BLANK'' ''1'' [],
        Element ''BZERO'' ''0'' [], Element ''CDELT'' ''3.14'' [], Element ''CRPIX'' ''-5'' []] \<and>
   distinct [''b'', ''a'', ''c''] \<and>
   distinct_keys (iter (sample_header [(''b'', PyInt 1), (''a'', PyInt 2), (''c'', PyInt 3)])) =
     [''b'', ''a'', ''c'']"
proof -
  let ?h = "sample_header [(''NAXIS'', PyInt 42), (''HISTORY'', PyStr ''first''), (''BLANK'', PyBool True),
                     (''HISTORY'', PyStr ''second''), (''BZERO'', PyBool False),
                     (''CDELT'', PyFloat (314, - 2)), (''CRPIX'', PyInt (- 5))]"
  let ?g = "sample_header [(''b'', PyInt 1), (''a'', PyInt 2), (''c'', PyInt 3)]"
  have s42: "str_int 42 = ''42''" and s5: "str_int (- 5) = ''-5''"
    by (simp_all add: str_int_def str_nat.simps digit_chars_def)
  have d: "distinct [''b'', ''a'', ''c'']" by simp
  have di: "distinct (iter ?g)" by (simp add: sample_header_def)
  have o: "distinct_keys (iter ?g) = [''b'', ''a'', ''c'']"
    using header_to_xml_children [of sample_str_float ?g] di by (simp add: sample_header_def)
  have x: "header_to_xml sample_str_float ?h =
     Element ''fits'' []
       [Element ''NAXIS'' ''42'' [], Element ''HISTORY'' ''first'' [], Element ''BLANK'' ''1'' [],
        Element ''BZERO'' ''0'' [], Element ''CDELT'' ''3.14'' [], Element ''CRPIX'' ''-5'' []]"
    using header_to_xml_children [of sample_str_float ?h]
    by (simp add: sample_header_def s42 s5 sample_str_float_def)
  show ?thesis using x d o by blast
qed

text \<open>
  Claim C5. After \<^verbatim>\<open>write\<close> the last box of the destination file is the last box of the
  codec's default encoding of the samples, and the XML metadata box is the box before it:
  the second to last. The codec's box list has a last box, that is, it is not empty.
\<close>

theorem xml_box_before_last_box:
  assumes "encode_boxes (map (map np_uint8) data) \<noteq> []"
  shows "\<exists>jp2. write_jp2 encode_boxes str_float fname data header fs fname = Some jp2 \<and>
           box jp2 = butlast (encode_boxes (map (map np_uint8) data)) @
                     [generate_jp2_xmlbox str_float header, last (encode_boxes (map (map np_uint8) data))] \<and>
           last (box jp2) = last (encode_boxes (map (map np_uint8) data)) \<and>
           2 \<le> length (box jp2) \<and>
           box jp2 ! (length (box jp2) - 2) = generate_jp2_xmlbox str_float header \<and>
           box_id (generate_jp2_xmlbox str_float header) = ''xml ''"
proof -
  let ?bs = "encode_boxes (map (map np_uint8) data)"
  let ?x = "generate_jp2_xmlbox str_float header"
  let ?new = "butlast ?bs @ [?x, last ?bs]"
  have "?new ! (length ?new - 2) = ?x"
    by (simp add: nth_append)
  then show ?thesis
    by (simp add: write_jp2_file insert_at_before_last [OF assms] generate_jp2_xmlbox_def)
qed

text \<open>The theorem on the sample codec: the XML box is the fourth of five boxes.\<close>

theorem xml_box_before_last_box_witness:
  "sample_boxes (map (map np_uint8) [[1, 2], [3, 4]]) \<noteq> [] \<and>
   (\<exists>jp2. write_jp2 sample_boxes sample_str_float ''out.jp2'' [[1, 2], [3, 4]]
             (sample_header [(''NAXIS'', PyInt 2)]) no_files ''out.jp2'' = Some jp2 \<and>
          last (box jp2) = \<lparr>box_id = ''jp2c'', xml = None\<rparr> \<and>
          box jp2 ! 3 = generate_jp2_xmlbox sample_str_float (sample_header [(''NAXIS'', PyInt 2)]) \<and>
          length (box jp2) = 5)"
proof -
  have ne: "sample_boxes (map (map np_uint8) [[1, 2], [3, 4]]) \<noteq> []"
    by (simp add: sample_boxes_def)
  from ne xml_box_before_last_box [of sample_boxes "[[1, 2], [3, 4]]" sample_str_float "''out.jp2''"
      "sample_header [(''NAXIS'', PyInt 2)]" no_files]
  obtain jp2 where w: "write_jp2 sample_boxes sample_str_float ''out.jp2'' [[1, 2], [3, 4]]
             (sample_header [(''NAXIS'', PyInt 2)]) no_files ''out.jp2'' = Some jp2"
    and b: "box jp2 = butlast (sample_boxes (map (map np_uint8) [[1, 2], [3, 4]])) @
                     [generate_jp2_xmlbox sample_str_float (sample_header [(''NAXIS'', PyInt 2)]),
                      last (sample_boxes (map (map np_uint8) [[1, 2], [3, 4]]))]"
    by blast
  have "last (box jp2) = \<lparr>box_id = ''jp2c'', xml = None\<rparr>"
    "box jp2 ! 3 = generate_jp2_xmlbox sample_str_float (sample_header [(''NAXIS'', PyInt 2)])"
    "length (box jp2) = 5"
    by (simp_all add: b sample_boxes_def)
  then show ?thesis using ne w by blast
qed

text \<open>
  Claim C7. \<^verbatim>\<open>write\<close> stores every sample modulo \<open>2 ^ 8\<close>: the value wraps around, it is
  not clamped to the range from 0 to 255.
\<close>

theorem write_wraps_samples:
  "\<exists>jp2. write_jp2 encode_boxes str_float fname data header fs fname = Some jp2 \<and>
         map (map uint) (pixels jp2) = map (map (\<lambda>x. x mod 2 ^ 8)) data"
  by (simp add: write_jp2_file comp_def uint_np_uint8)

text \<open>
  The theorem on samples outside the range: 300, -1 and 256 are stored as 44, 255 and 0,
  where clamping would give 255, 0 and 255.
\<close>

theorem write_wraps_samples_witness:
  "(\<exists>jp2. write_jp2 sample_boxes sample_str_float ''out.jp2'' [[300, - 1], [256, 255]]
             (sample_header []) no_files ''out.jp2'' = Some jp2 \<and>
          map (map uint) (pixels jp2) = [[44, 255], [0, 255]]) \<and>
   map (map clamp_uint8) [[300, - 1], [256, 255]] = [[255, 0], [255, 255]]"
proof -
  have c: "map (map clamp_uint8) [[300, - 1], [256, 255]] = [[255, 0], [255, 255]]"
    by (simp add: clamp_uint8_def)
  have m: "map (map (\<lambda>x. x mod 2 ^ 8)) [[300, - 1], [256, 255]] = [[44, 255], [0, 255 :: int]]"
    by simp
  show ?thesis
    using write_wraps_samples [of sample_boxes sample_str_float "''out.jp2''" "[[300, - 1], [256, 255]]" "sample_header []" no_files] c
    unfolding m by blast
qed


section \<open>Writing, then reading\<close>

lemma uint_in_range: "0 \<le> x \<Longrightarrow> x < 256 \<Longrightarrow> uint (np_uint8 x) = x"
  by (simp add: uint_np_uint8)

lemma uint_rows_in_range:
  "list_all (list_all (\<lambda>x. 0 \<le> x \<and> x < 256)) data \<Longrightarrow>
   map (map uint) (map (map np_uint8) data) = data"
  by (induction data) (simp_all add: list_all_iff map_idI uint_in_range)

lemma get_header_written:
  assumes codec: "list_all (\<lambda>b. box_id b \<noteq> ''xml '') (encode_boxes (map (map np_uint8) data))"
      and comment: "''comment'' \<notin> set (iter header) \<or>
                    \<not> is_number py_float (data_text str_float (get header ''comment''))"
  shows "\<exists>h. get_header py_float (write_jp2 encode_boxes str_float fname data header fs) fname = Inr [h] \<and>
           (\<forall>k. map_of h k =
              (if k = ''helioviewer'' then Some (PyBool False)
               else if k \<notin> set (iter header) then None
               else if k = ''comment''
                 then Some (PyStr (remove_newlines (data_text str_float (get header k))))
               else Some (coerce py_float (data_text str_float (get header k)))))"
proof -
  let ?fs = "write_jp2 encode_boxes str_float fname data header fs"
  let ?strs = "map (\<lambda>k. (k, data_text str_float (get header k))) (distinct_keys (iter header))"
  let ?root = "append (Element ''meta'' [] []) (header_to_xml str_float header)"
  define cs where "cs = map (\<lambda>(k, v). (k, coerce py_float v)) ?strs"
  have parsed: "parse_fits ?fs fname = Inr (?root, ?strs)"
    using codec by (rule parse_fits_written)
  have look: "map_of ?strs k =
      (if k \<in> set (iter header) then Some (data_text str_float (get header k)) else None)" for k
    by (simp add: map_of_written distinct_keys_set)
  have cl: "map_of cs k =
      (if k \<in> set (iter header) then Some (coerce py_float (data_text str_float (get header k))) else None)" for k
    unfolding cs_def by (simp only: map_of_coerced look) simp
  note eq = get_header_eq [OF parsed, of py_float, unfolded no_helioviewer_sibling, folded cs_def]
  show ?thesis
  proof (cases "''comment'' \<in> set (iter header)")
    case False
    then have "map_of ?strs ''comment'' = None" by (simp only: look) simp
    then have "get_header py_float ?fs fname = Inr [setitem cs ''helioviewer'' (PyBool False)]"
      using eq by simp
    moreover have "map_of (setitem cs ''helioviewer'' (PyBool False)) k =
              (if k = ''helioviewer'' then Some (PyBool False)
               else if k \<notin> set (iter header) then None
               else if k = ''comment''
                 then Some (PyStr (remove_newlines (data_text str_float (get header k))))
               else Some (coerce py_float (data_text str_float (get header k))))" for k
      using False by (auto simp: setitem_def update_conv' cl)
    ultimately show ?thesis by blast
  next
    case True
    then have c: "map_of ?strs ''comment'' = Some (data_text str_float (get header ''comment''))"
      by (simp only: look) simp
    have nn: "\<not> is_number py_float (data_text str_float (get header ''comment''))"
      using True comment by blast
    have "get_header py_float ?fs fname =
        Inr [setitem (setitem cs ''comment''
                        (PyStr (remove_newlines (data_text str_float (get header ''comment'')))))
               ''helioviewer'' (PyBool False)]"
      using eq c nn by simp
    moreover have "map_of (setitem (setitem cs ''comment''
                        (PyStr (remove_newlines (data_text str_float (get header ''comment'')))))
               ''helioviewer'' (PyBool False)) k =
              (if k = ''helioviewer'' then Some (PyBool False)
               else if k \<notin> set (iter header) then None
               else if k = ''comment''
                 then Some (PyStr (remove_newlines (data_text str_float (get header k))))
               else Some (coerce py_float (data_text str_float (get header k))))" for k
      using True by (auto simp: setitem_def update_conv' cl)
    ultimately show ?thesis by blast
  qed
qed

lemma find_element:
  "k \<in> set ks \<Longrightarrow>
   List.find (\<lambda>c. tag c = k) (map (\<lambda>k. Element k (f k) []) ks) = Some (Element k (f k) [])"
  by (induction ks) auto

lemma negative_not_digits: "i < 0 \<Longrightarrow> \<not> isdigit (str_int i)"
  by (simp add: str_int_def isdigit_def digit_chars_def)

lemma read_back_eq:
  assumes "float_round_trips py_float str_float v"
  shows "coerce py_float (data_text str_float v) = read_back py_float v"
proof (cases v)
  case (PyStr s)
  then show ?thesis by (simp add: read_back_def data_text_def)
next
  case (PyInt i)
  show ?thesis
  proof (cases "0 \<le> i")
    case True
    then show ?thesis using PyInt coerce_nonneg_int [of i py_float str_float]
      by (simp add: read_back_def)
  next
    case False
    then have "\<not> isdigit (str_int i)" by (simp add: negative_not_digits)
    then show ?thesis using PyInt False
      by (simp add: read_back_def data_text_def coerce_def)
  qed
next
  case (PyFloat x)
  then show ?thesis using assms coerce_float [of str_float x py_float]
    by (simp add: read_back_def float_round_trips_def)
next
  case (PyBool b)
  then show ?thesis using coerce_bool [of py_float str_float b]
    by (simp add: read_back_def)
qed

text \<open>
  Claim C1, as the code has it. Take a header that is not empty, whose keys are XML names
  and whose values have XML-safe text, with floats that Python prints and reads back, and
  whose \<^verbatim>\<open>comment\<close>, if it has one, is a string that is no number; let the codec's default
  box list hold no XML box and every sample fit in eight bits. Then \<^verbatim>\<open>write\<close> followed by
  \<^verbatim>\<open>read\<close> returns one pair. Its samples are the original ones with the first axis
  reversed. Its header has the original keys and \<^verbatim>\<open>helioviewer\<close>: a non-negative integer, a
  float and a string that is no number come back equal to the original; a string that is
  a number comes back coerced; a boolean comes back as the integer 1 or 0, and a negative
  integer as the float read from its decimal text; \<^verbatim>\<open>comment\<close> comes back without its
  newlines and \<^verbatim>\<open>helioviewer\<close> is \<open>False\<close>.
\<close>

theorem write_read_round_trip:
  assumes codec: "list_all (\<lambda>b. box_id b \<noteq> ''xml '') (encode_boxes (map (map np_uint8) data))"
      and bytes: "list_all (list_all (\<lambda>x. 0 \<le> x \<and> x < 256)) data"
      and nonempty: "iter header \<noteq> []"
      and tags: "list_all tag_name (iter header)"
      and safe: "list_all (\<lambda>k. xml_safe_value str_float (get header k)) (iter header)"
      and floats: "list_all (\<lambda>k. float_round_trips py_float str_float (get header k)) (iter header)"
      and comment: "''comment'' \<notin> set (iter header) \<or>
                    (\<exists>s. get header ''comment'' = PyStr s \<and> \<not> is_number py_float s)"
  shows "\<exists>px h. read py_float (write_jp2 encode_boxes str_float fname data header fs) fname = Inr [(px, h)] \<and>
           map (map uint) px = rev data \<and>
           (\<forall>k. map_of h k =
              (if k = ''helioviewer'' then Some (PyBool False)
               else if k \<notin> set (iter header) then None
               else if k = ''comment'' then Some (without_newlines (get header k))
               else Some (read_back py_float (get header k))))"
proof -
  let ?fs = "write_jp2 encode_boxes str_float fname data header fs"
  have comment': "''comment'' \<notin> set (iter header) \<or>
      \<not> is_number py_float (data_text str_float (get header ''comment''))"
    using comment by (auto simp: data_text_def)
  obtain h where gh: "get_header py_float ?fs fname = Inr [h]"
    and vals: "\<And>k. map_of h k =
              (if k = ''helioviewer'' then Some (PyBool False)
               else if k \<notin> set (iter header) then None
               else if k = ''comment''
                 then Some (PyStr (remove_newlines (data_text str_float (get header k))))
               else Some (coerce py_float (data_text str_float (get header k))))"
    using codec comment'
      get_header_written [of encode_boxes data header py_float str_float fname fs]
    by blast
  have same: "coerce py_float (data_text str_float (get header k)) = read_back py_float (get header k)"
    if "k \<in> set (iter header)" for k
    using that floats by (intro read_back_eq) (simp add: list_all_iff)
  have stripped: "PyStr (remove_newlines (data_text str_float (get header ''comment''))) =
      without_newlines (get header ''comment'')"
    if "''comment'' \<in> set (iter header)"
    using that comment by (auto simp: without_newlines_def data_text_def)
  have vals': "map_of h k =
              (if k = ''helioviewer'' then Some (PyBool False)
               else if k \<notin> set (iter header) then None
               else if k = ''comment'' then Some (without_newlines (get header k))
               else Some (read_back py_float (get header k)))" for k
    using same [of k] stripped by (simp add: vals)
  have rd: "read py_float ?fs fname = Inr [(rev (map (map np_uint8) data), h)]"
    by (simp add: read_def gh write_jp2_file)
  have px: "map (map uint) (rev (map (map np_uint8) data)) = rev data"
    using uint_rows_in_range [OF bytes] by (simp add: rev_map [symmetric])
  show ?thesis using rd px vals' by blast
qed

text \<open>
  The theorem on a two by two image and a header with an integer, a float, a boolean, a
  negative integer, a string and a comment of two lines.
\<close>

theorem write_read_round_trip_witness:
  "list_all (\<lambda>b. box_id b \<noteq> ''xml '') (sample_boxes (map (map np_uint8) [[1, 2], [3, 4]])) \<and>
   list_all (list_all (\<lambda>x. 0 \<le> x \<and> x < 256)) [[1, 2], [3, 4 :: int]] \<and>
   list_all tag_name [''NAXIS'', ''CDELT'', ''BLANK'', ''CRPIX'', ''TELESCOP'', ''comment''] \<and>
   xml_safe ''SDO/AIA'' \<and> xml_safe ''line1\<newline>line2'' \<and> xml_safe ''3.14'' \<and>
   sample_float (sample_str_float (314, - 2)) = Some (314, - 2) \<and>
   \<not> is_number sample_float ''line1\<newline>line2'' \<and>
   (\<exists>px h. read sample_float
              (write_jp2 sample_boxes sample_str_float ''out.jp2'' [[1, 2], [3, 4]]
                 (sample_header [(''NAXIS'', PyInt 42), (''CDELT'', PyFloat (314, - 2)),
                                 (''BLANK'', PyBool False), (''CRPIX'', PyInt (- 5)),
                                 (''TELESCOP'', PyStr ''SDO/AIA''),
                                 (''comment'', PyStr ''line1\<newline>line2'')])
                 no_files) ''out.jp2'' = Inr [(px, h)] \<and>
           map (map uint) px = [[3, 4], [1, 2]] \<and>
           map_of h ''NAXIS'' = Some (PyInt 42) \<and>
           map_of h ''CDELT'' = Some (PyFloat (314, - 2)) \<and>
           map_of h ''BLANK'' = Some (PyInt 0) \<and>
           map_of h ''CRPIX'' = Some (PyFloat (- 5, 0)) \<and>
           map_of h ''TELESCOP'' = Some (PyStr ''SDO/AIA'') \<and>
           map_of h ''comment'' = Some (PyStr ''line1line2'') \<and>
           map_of h ''helioviewer'' = Some (PyBool False) \<and>
           map_of h ''OTHER'' = None)"
proof -
  let ?h = "sample_header [(''NAXIS'', PyInt 42), (''CDELT'', PyFloat (314, - 2)),
                           (''BLANK'', PyBool False), (''CRPIX'', PyInt (- 5)),
                           (''TELESCOP'', PyStr ''SDO/AIA''),
                           (''comment'', PyStr ''line1\<newline>line2'')]"
  have codec: "list_all (\<lambda>b. box_id b \<noteq> ''xml '') (sample_boxes (map (map np_uint8) [[1, 2], [3, 4]]))"
    by (simp add: sample_boxes_def)
  have bytes: "list_all (list_all (\<lambda>x. 0 \<le> x \<and> x < 256)) [[1, 2], [3, 4 :: int]]"
    by simp
  have it: "iter ?h = [''NAXIS'', ''CDELT'', ''BLANK'', ''CRPIX'', ''TELESCOP'', ''comment'']"
    by (simp add: sample_header_def)
  have g: "get ?h ''NAXIS'' = PyInt 42" "get ?h ''CDELT'' = PyFloat (314, - 2)"
    "get ?h ''BLANK'' = PyBool False" "get ?h ''CRPIX'' = PyInt (- 5)"
    "get ?h ''TELESCOP'' = PyStr ''SDO/AIA''" "get ?h ''comment'' = PyStr ''line1\<newline>line2''"
    by (simp_all add: sample_header_def)
  have nonempty: "iter ?h \<noteq> []" by (simp add: it)
  have names: "list_all tag_name [''NAXIS'', ''CDELT'', ''BLANK'', ''CRPIX'', ''TELESCOP'', ''comment'']"
    by (simp add: tag_name_def name_start_def name_char_def)
  have tags: "list_all tag_name (iter ?h)" using names by (simp only: it)
  have s1: "xml_safe ''SDO/AIA''" and s2: "xml_safe ''line1\<newline>line2''" and s3: "xml_safe ''3.14''"
    by (simp_all add: xml_safe_def)
  have fl: "sample_float (sample_str_float (314, - 2)) = Some (314, - 2)"
    by (simp add: sample_float_def sample_str_float_def)
  have safe: "list_all (\<lambda>k. xml_safe_value sample_str_float (get ?h k)) (iter ?h)"
    using s1 s2 s3 by (simp add: it g xml_safe_value_def sample_str_float_def)
  have floats: "list_all (\<lambda>k. float_round_trips sample_float sample_str_float (get ?h k)) (iter ?h)"
    using fl by (simp add: it g float_round_trips_def sample_str_float_def isdigit_samples)
  have nn: "\<not> is_number sample_float ''line1\<newline>line2''"
    by (simp add: is_number_def isdigit_samples string_is_float_def sample_float_def)
  have comment: "''comment'' \<notin> set (iter ?h) \<or>
      (\<exists>s. get ?h ''comment'' = PyStr s \<and> \<not> is_number sample_float s)"
    using nn by (simp add: g)
  have m5: "str_int (- 5) = ''-5''"
    by (simp add: str_int_def str_nat.simps digit_chars_def)
  have v1: "read_back sample_float (get ?h ''NAXIS'') = PyInt 42"
    and v2: "read_back sample_float (get ?h ''CDELT'') = PyFloat (314, - 2)"
    and v3: "read_back sample_float (get ?h ''BLANK'') = PyInt 0"
    and v4: "read_back sample_float (get ?h ''CRPIX'') = PyFloat (- 5, 0)"
    and v5: "read_back sample_float (get ?h ''TELESCOP'') = PyStr ''SDO/AIA''"
    and v6: "without_newlines (get ?h ''comment'') = PyStr ''line1line2''"
    by (simp_all add: g read_back_def without_newlines_def remove_newlines_def m5 coerce_def
        isdigit_def digit_chars_def sample_float_def)
  from codec bytes nonempty tags safe floats comment
    write_read_round_trip [of sample_boxes "[[1, 2], [3, 4]]" ?h sample_str_float sample_float
      "''out.jp2''" no_files]
  obtain px h where rd: "read sample_float
        (write_jp2 sample_boxes sample_str_float ''out.jp2'' [[1, 2], [3, 4]] ?h no_files) ''out.jp2'' =
        Inr [(px, h)]"
    and px: "map (map uint) px = rev [[1, 2], [3, 4]]"
    and vals: "\<And>k. map_of h k =
              (if k = ''helioviewer'' then Some (PyBool False)
               else if k \<notin> set (iter ?h) then None
               else if k = ''comment'' then Some (without_newlines (get ?h k))
               else Some (read_back sample_float (get ?h k)))"
    by blast
  have r1: "map_of h ''NAXIS'' = Some (PyInt 42)" by (simp add: vals it v1)
  have r2: "map_of h ''CDELT'' = Some (PyFloat (314, - 2))" by (simp add: vals it v2)
  have r3: "map_of h ''BLANK'' = Some (PyInt 0)" by (simp add: vals it v3)
  have r4: "map_of h ''CRPIX'' = Some (PyFloat (- 5, 0))" by (simp add: vals it v4)
  have r5: "map_of h ''TELESCOP'' = Some (PyStr ''SDO/AIA'')" by (simp add: vals it v5)
  have r6: "map_of h ''comment'' = Some (PyStr ''line1line2'')" by (simp add: vals it v6)
  have r7: "map_of h ''helioviewer'' = Some (PyBool False)" by (simp add: vals)
  have r8: "map_of h ''OTHER'' = None" by (simp add: vals it)
  have px': "map (map uint) px = [[3, 4], [1, 2]]" using px by simp
  have "\<exists>px h. read sample_float
        (write_jp2 sample_boxes sample_str_float ''out.jp2'' [[1, 2], [3, 4]] ?h no_files) ''out.jp2'' =
        Inr [(px, h)] \<and>
           map (map uint) px = [[3, 4], [1, 2]] \<and>
           map_of h ''NAXIS'' = Some (PyInt 42) \<and>
           map_of h ''CDELT'' = Some (PyFloat (314, - 2)) \<and>
           map_of h ''BLANK'' = Some (PyInt 0) \<and>
           map_of h ''CRPIX'' = Some (PyFloat (- 5, 0)) \<and>
           map_of h ''TELESCOP'' = Some (PyStr ''SDO/AIA'') \<and>
           map_of h ''comment'' = Some (PyStr ''line1line2'') \<and>
           map_of h ''helioviewer'' = Some (PyBool False) \<and>
           map_of h ''OTHER'' = None"
    using rd px' r1 r2 r3 r4 r5 r6 r7 r8 by simp
  then show ?thesis using codec bytes names s1 s2 s3 fl nn by simp
qed

text \<open>
  Claim C1 as stated fails on a header with a comment of two lines, a boolean, a negative
  integer and a string of digits. The comment read back has lost its newline; the boolean
  comes back as the integer 1 and the negative integer as a float; the string \<^verbatim>\<open>"007"\<close>
  comes back as the integer 7, whose default string is not the original; and the header
  read back has the key \<^verbatim>\<open>helioviewer\<close>, which the original has not.
\<close>

theorem round_trip_counterexample:
  "read sample_float
     (write_jp2 sample_boxes sample_str_float ''out.jp2'' [[1, 2], [3, 4]]
        (sample_header [(''comment'', PyStr ''line1\<newline>line2''), (''BLANK'', PyBool True),
                        (''CRPIX'', PyInt (- 5)), (''ID'', PyStr ''007'')])
        no_files) ''out.jp2'' =
     Inr [([[3, 4], [1, 2]],
           [(''comment'', PyStr ''line1line2''), (''BLANK'', PyInt 1),
            (''CRPIX'', PyFloat (- 5, 0)), (''ID'', PyInt 7), (''helioviewer'', PyBool False)])] \<and>
   str_int 7 = ''7''"
  by code_simp

text \<open>
  Claim C3, as the code has it. A key other than \<^verbatim>\<open>comment\<close> and \<^verbatim>\<open>helioviewer\<close> whose
  value is the boolean \<open>True\<close> is serialised by \<^verbatim>\<open>write\<close> as the text \<^verbatim>\<open>1\<close>, and
  \<^verbatim>\<open>get_header\<close> of the written file returns the integer 1 for it: the text is made of
  digits, so the coercion pass turns it into an integer, not a boolean and not a string.
  The codec's default box list holds no XML box and the header has no key \<^verbatim>\<open>comment\<close> whose
  text is a number.
\<close>

theorem true_reads_back_as_integer:
  assumes codec: "list_all (\<lambda>b. box_id b \<noteq> ''xml '') (encode_boxes (map (map np_uint8) data))"
      and key: "k \<in> set (iter header)" and true: "get header k = PyBool True"
      and other: "k \<noteq> ''comment''" "k \<noteq> ''helioviewer''"
      and comment: "''comment'' \<notin> set (iter header) \<or>
                    \<not> is_number py_float (data_text str_float (get header ''comment''))"
  shows "find_child (header_to_xml str_float header) k = Some (Element k ''1'' []) \<and>
         (\<exists>h. get_header py_float (write_jp2 encode_boxes str_float fname data header fs) fname = Inr [h] \<and>
              map_of h k = Some (PyInt 1))"
proof -
  have "k \<in> set (distinct_keys (iter header))" using key by (simp add: distinct_keys_set)
  then have ser: "find_child (header_to_xml str_float header) k = Some (Element k ''1'' [])"
    using true by (simp add: find_child_def header_to_xml_eq find_element data_text_def)
  obtain h where gh: "get_header py_float (write_jp2 encode_boxes str_float fname data header fs) fname = Inr [h]"
    and vals: "\<And>k. map_of h k =
              (if k = ''helioviewer'' then Some (PyBool False)
               else if k \<notin> set (iter header) then None
               else if k = ''comment''
                 then Some (PyStr (remove_newlines (data_text str_float (get header k))))
               else Some (coerce py_float (data_text str_float (get header k))))"
    using codec comment
      get_header_written [of encode_boxes data header py_float str_float fname fs]
    by blast
  have "map_of h k = Some (PyInt 1)"
    using key true other coerce_bool [of py_float str_float True] by (simp add: vals)
  then show ?thesis using ser gh by blast
qed

text \<open>The theorem on a header with the key \<^verbatim>\<open>SIMPLE\<close>.\<close>

theorem true_reads_back_as_integer_witness:
  "list_all (\<lambda>b. box_id b \<noteq> ''xml '') (sample_boxes (map (map np_uint8) [[7]])) \<and>
   ''SIMPLE'' \<in> set (iter (sample_header [(''SIMPLE'', PyBool True), (''NAXIS'', PyInt 2)])) \<and>
   get (sample_header [(''SIMPLE'', PyBool True), (''NAXIS'', PyInt 2)]) ''SIMPLE'' = PyBool True \<and>
   ''comment'' \<notin> set (iter (sample_header [(''SIMPLE'', PyBool True), (''NAXIS'', PyInt 2)])) \<and>
   find_child (header_to_xml sample_str_float
                (sample_header [(''SIMPLE'', PyBool True), (''NAXIS'', PyInt 2)])) ''SIMPLE'' =
     Some (Element ''SIMPLE'' ''1'' []) \<and>
   (\<exists>h. get_header sample_float
          (write_jp2 sample_boxes sample_str_float ''out.jp2'' [[7]]
             (sample_header [(''SIMPLE'', PyBool True), (''NAXIS'', PyInt 2)]) no_files) ''out.jp2'' =
          Inr [h] \<and>
        map_of h ''SIMPLE'' = Some (PyInt 1))"
proof -
  let ?h = "sample_header [(''SIMPLE'', PyBool True), (''NAXIS'', PyInt 2)]"
  have codec: "list_all (\<lambda>b. box_id b \<noteq> ''xml '') (sample_boxes (map (map np_uint8) [[7]]))"
    by (simp add: sample_boxes_def)
  have key: "''SIMPLE'' \<in> set (iter ?h)" by (simp add: sample_header_def)
  have true: "get ?h ''SIMPLE'' = PyBool True" by (simp add: sample_header_def)
  have nc: "''comment'' \<notin> set (iter ?h)" by (simp add: sample_header_def)
  have o1: "''SIMPLE'' \<noteq> ''comment''" and o2: "''SIMPLE'' \<noteq> ''helioviewer''" by simp_all
  have comment: "''comment'' \<notin> set (iter ?h) \<or>
      \<not> is_number sample_float (data_text sample_str_float (get ?h ''comment''))"
    using nc by blast
  show ?thesis
    using codec key true nc
      true_reads_back_as_integer [of sample_boxes "[[7]]" "''SIMPLE''" ?h sample_float
        sample_str_float "''out.jp2''" no_files, OF codec key true o1 o2 comment]
    by blast
qed

text \<open>
  Claim C3 as stated fails on a header with one boolean: the value read back is the integer
  1, not the string \<^verbatim>\<open>"1"\<close>.
\<close>

theorem true_as_string_counterexample:
  "get (sample_header [(''BLANK'', PyBool True)]) ''BLANK'' = PyBool True \<and>
   get_header sample_float
     (write_jp2 sample_boxes sample_str_float ''out.jp2'' [[0]]
        (sample_header [(''BLANK'', PyBool True)]) no_files) ''out.jp2'' =
     Inr [[(''BLANK'', PyInt 1), (''helioviewer'', PyBool False)]]"
  by code_simp

end
